theory Spec2Isabelle
  imports Complex_Main "HOL-Library.Sublist"
begin

section \<open>TrafficLens: the sampling and differencing engine\<close>

text \<open>
  A shallow embedding of the class \<open>TrafficLens\<close> (the one source file of the library).
  A JavaScript \<open>number\<close> is modelled as a \<open>real\<close>: arithmetic is exact, every value is
  finite, and there is neither \<open>NaN\<close> nor a negative zero. The fields follow the
  TypeScript declarations, so a field declared \<open>number\<close> always holds a number.
\<close>

type_synonym number = real

subsection \<open>Truthiness and number-to-string conversion\<close>

text \<open>A number is falsy exactly when it is zero (\<open>NaN\<close> is outside the model).\<close>

definition truthy :: "number \<Rightarrow> bool" where
  "truthy x = (x \<noteq> 0)"

text \<open>\<open>x || d\<close> on numbers.\<close>

definition or_else :: "number \<Rightarrow> number \<Rightarrow> number" where
  "or_else x d = (if truthy x then x else d)"

definition digit_char :: "nat \<Rightarrow> char" where
  "digit_char d = ''0123456789'' ! d"

text \<open>\<open>Number.prototype.toString\<close> on a non-negative integer: its decimal digits.\<close>

fun toString :: "nat \<Rightarrow> string" where
  "toString n =
     (if n < 10 then [digit_char n] else toString (n div 10) @ [digit_char (n mod 10)])"

declare toString.simps [simp del]

text \<open>
  \<open>Number.prototype.toFixed(2)\<close>: the sign is split off, \<open>n\<close> is the integer for which
  \<open>n / 100\<close> is closest to the magnitude (the larger one on a tie), its digits are padded
  with zeros to three places and the point goes before the last two. From \<open>10^21\<close> on,
  JavaScript prints the number in exponent notation instead; such magnitudes are outside
  this definition.
\<close>

definition toFixed2 :: "number \<Rightarrow> string" where
  "toFixed2 x =
     (let s = (if x < 0 then ''-'' else '''');
          n = nat \<lfloor>\<bar>x\<bar> * 100 + 1 / 2\<rfloor>;
          m = toString n;
          m' = replicate (3 - length m) (CHR ''0'') @ m;
          k = length m'
      in s @ take (k - 2) m' @ ''.'' @ drop (k - 2) m')"

text \<open>\<open>String.prototype.includes\<close>: \<open>sub\<close> occurs in \<open>s\<close> as a contiguous run.\<close>

fun str_includes :: "string \<Rightarrow> string \<Rightarrow> bool" where
  "str_includes [] sub = (sub = [])"
| "str_includes (c # cs) sub = (prefix sub (c # cs) \<or> str_includes cs sub)"

subsection \<open>Data model\<close>

record Config =
  proxyPort :: nat
  updateInterval :: "number option"

record NetworkMetrics =
  upload :: number
  download :: number
  uploadSpeed :: number
  downloadSpeed :: number

record NetworkSnapshot = NetworkMetrics +
  snapshot_timestamp :: number

record ProxyMetrics = NetworkMetrics +
  activeConnections :: nat

record TrafficStats =
  proxied :: ProxyMetrics
  direct :: NetworkMetrics
  timestamp :: number

text \<open>A callback is a function object; only its identity matters here.\<close>

type_synonym MonitorCallback = nat

text \<open>The handle that \<open>setInterval\<close> returns: an object, hence always truthy.\<close>

datatype Timeout = Timeout nat

datatype error = Error string

record TrafficLens =
  lastStats :: "NetworkSnapshot option"
  totalStats :: TrafficStats
  intervalId :: "Timeout option"
  callbacks :: "MonitorCallback list"
  config :: Config

subsection \<open>The provider\<close>

text \<open>
  What \<open>systeminformation\<close> reports, with the fields the class reads. A call to the
  provider is a promise that either resolves with a list or rejects.
\<close>

record NetworkStatsData =
  iface :: string
  operstate :: string
  rx_bytes :: number
  tx_bytes :: number
  rx_sec :: number
  tx_sec :: number

record NetworkConnectionsData =
  localAddress :: string
  localPort :: string

datatype 'a settled = Rejected | Resolved 'a

subsection \<open>Construction\<close>

text \<open>
  \<open>updateInterval = None\<close> is a configuration without that property. The stored
  configuration is \<open>{updateInterval: config.updateInterval || 5000, ...config}\<close>: the
  spread comes last, so a property the caller gave replaces the default.
\<close>

definition initialStats :: "number \<Rightarrow> TrafficStats" where
  "initialStats now =
     \<lparr>proxied = \<lparr>upload = 0, download = 0, uploadSpeed = 0, downloadSpeed = 0,
                  activeConnections = 0\<rparr>,
      direct = \<lparr>upload = 0, download = 0, uploadSpeed = 0, downloadSpeed = 0\<rparr>,
      timestamp = now\<rparr>"

definition constructor :: "number \<Rightarrow> Config \<Rightarrow> error + TrafficLens" where
  "constructor now cfg =
     (if (case updateInterval cfg of None \<Rightarrow> False | Some ui \<Rightarrow> truthy ui \<and> ui < 3000)
      then Inl (Error ''Update interval must be greater than 3 seconds'')
      else
        let dflt = (case updateInterval cfg of None \<Rightarrow> 5000 | Some ui \<Rightarrow> or_else ui 5000);
            stored = (case updateInterval cfg of None \<Rightarrow> dflt | Some ui \<Rightarrow> ui)
        in Inr \<lparr>lastStats = None, totalStats = initialStats now, intervalId = None,
                callbacks = [], config = cfg\<lparr>updateInterval := Some stored\<rparr>\<rparr>)"

subsection \<open>Sampler\<close>

definition getCurrentStats ::
  "NetworkStatsData list settled \<Rightarrow> number \<Rightarrow> NetworkSnapshot option" where
  "getCurrentStats networkStats now =
     (case networkStats of
        Rejected \<Rightarrow> None
      | Resolved stats \<Rightarrow>
          (case find (\<lambda>stat. operstate stat = ''up'' \<and> rx_bytes stat > 0) stats of
             None \<Rightarrow> None
           | Some mainInterface \<Rightarrow>
               Some \<lparr>upload = or_else (tx_bytes mainInterface) 0,
                     download = or_else (rx_bytes mainInterface) 0,
                     uploadSpeed = or_else (tx_sec mainInterface) 0,
                     downloadSpeed = or_else (rx_sec mainInterface) 0,
                     snapshot_timestamp = now\<rparr>))"

record ProxyResults =
  result_activeConnections :: nat
  result_stats :: "NetworkMetrics option"

text \<open>
  The connection table is awaited first and the interface statistics second; a rejection
  of either is caught and gives the degraded result.
\<close>

definition checkProxyConnections ::
  "Config \<Rightarrow> NetworkConnectionsData list settled \<Rightarrow> NetworkStatsData list settled
     \<Rightarrow> ProxyResults" where
  "checkProxyConnections cfg netConnections networkStats =
     (case netConnections of
        Rejected \<Rightarrow> \<lparr>result_activeConnections = 0, result_stats = None\<rparr>
      | Resolved conns \<Rightarrow>
          (case networkStats of
             Rejected \<Rightarrow> \<lparr>result_activeConnections = 0, result_stats = None\<rparr>
           | Resolved stats \<Rightarrow>
               let proxyConnections =
                     filter (\<lambda>conn. localPort conn = toString (proxyPort cfg)) conns;
                   proxyInterface =
                     find (\<lambda>stat. list_ex (\<lambda>conn. str_includes (localAddress conn) (iface stat))
                                     proxyConnections) stats
               in \<lparr>result_activeConnections = length proxyConnections,
                   result_stats =
                     (case proxyInterface of
                        None \<Rightarrow> None
                      | Some p \<Rightarrow>
                          Some \<lparr>upload = tx_bytes p, download = rx_bytes p,
                                uploadSpeed = tx_sec p, downloadSpeed = rx_sec p\<rparr>)\<rparr>))"

subsection \<open>One tick of the monitoring loop\<close>

text \<open>
  The body of the interval callback, from the point where both provider calls have
  settled. Its inputs are the three provider outcomes and the two clock readings
  (\<open>Date.now()\<close> inside \<open>getCurrentStats\<close> and in the publishing branch). Besides the new
  instance it returns the callback invocations it made, in order, each with the value of
  the shared statistics object at that moment. Callbacks are observers: they return
  normally and do not call back into the instance.
\<close>

record TickInput =
  statsOutcome :: "NetworkStatsData list settled"
  captureTime :: number
  connectionsOutcome :: "NetworkConnectionsData list settled"
  proxyStatsOutcome :: "NetworkStatsData list settled"
  tickTime :: number

type_synonym publish = "MonitorCallback \<times> TrafficStats"

text \<open>\<open>proxyResults.stats?.f || 0\<close>\<close>

definition stats_or_zero :: "NetworkMetrics option \<Rightarrow> (NetworkMetrics \<Rightarrow> number) \<Rightarrow> number" where
  "stats_or_zero st f = (case st of None \<Rightarrow> 0 | Some s \<Rightarrow> or_else (f s) 0)"

definition updateTotals :: "TrafficStats \<Rightarrow> NetworkSnapshot \<Rightarrow> ProxyResults \<Rightarrow> number \<Rightarrow> TrafficStats" where
  "updateTotals stats currentStats proxyResults now =
     (let t1 = stats\<lparr>timestamp := now\<rparr>;
          t2 = t1\<lparr>proxied :=
                   (proxied t1)\<lparr>activeConnections := result_activeConnections proxyResults\<rparr>\<rparr>;
          t3 = (case result_stats proxyResults of
                  None \<Rightarrow> t2
                | Some st \<Rightarrow>
                    t2\<lparr>proxied :=
                         \<lparr>upload = upload st, download = download st,
                          uploadSpeed = uploadSpeed st, downloadSpeed = downloadSpeed st,
                          activeConnections = result_activeConnections proxyResults\<rparr>\<rparr>)
      in t3\<lparr>direct :=
              \<lparr>upload = upload currentStats - stats_or_zero (result_stats proxyResults) upload,
               download = download currentStats - stats_or_zero (result_stats proxyResults) download,
               uploadSpeed =
                 uploadSpeed currentStats - stats_or_zero (result_stats proxyResults) uploadSpeed,
               downloadSpeed =
                 downloadSpeed currentStats
                   - stats_or_zero (result_stats proxyResults) downloadSpeed\<rparr>\<rparr>)"

definition tick :: "TrafficLens \<Rightarrow> TickInput \<Rightarrow> TrafficLens \<times> publish list" where
  "tick this inp =
     (let currentStats = getCurrentStats (statsOutcome inp) (captureTime inp);
          proxyResults =
            checkProxyConnections (config this) (connectionsOutcome inp) (proxyStatsOutcome inp)
      in case currentStats of
           None \<Rightarrow> (this, [])
         | Some cur \<Rightarrow>
             (case lastStats this of
                None \<Rightarrow> (this\<lparr>lastStats := Some cur\<rparr>, [])
              | Some _ \<Rightarrow>
                  let updated = updateTotals (totalStats this) cur proxyResults (tickTime inp)
                  in (this\<lparr>totalStats := updated, lastStats := Some cur\<rparr>,
                      map (\<lambda>callback. (callback, updated)) (callbacks this))))"

subsection \<open>Subscription registry\<close>

definition subscribe :: "MonitorCallback \<Rightarrow> TrafficLens \<Rightarrow> TrafficLens" where
  "subscribe callback this = this\<lparr>callbacks := callbacks this @ [callback]\<rparr>"

text \<open>The function that \<open>subscribe callback\<close> returns.\<close>

definition unsubscribe :: "MonitorCallback \<Rightarrow> TrafficLens \<Rightarrow> TrafficLens" where
  "unsubscribe callback this =
     this\<lparr>callbacks := filter (\<lambda>cb. cb \<noteq> callback) (callbacks this)\<rparr>"

subsection \<open>Formatting\<close>

definition units :: "string list" where
  "units = [''B'', ''KB'', ''MB'', ''GB'']"

function formatBytes_loop :: "number \<Rightarrow> nat \<Rightarrow> number \<times> nat" where
  "formatBytes_loop sz unitIndex =
     (if sz \<ge> 1024 \<and> unitIndex < length units - 1
      then formatBytes_loop (sz / 1024) (unitIndex + 1)
      else (sz, unitIndex))"
  by pat_completeness auto
termination
  by (relation "measure (\<lambda>(sz, unitIndex). length units - 1 - unitIndex)") auto

declare formatBytes_loop.simps [simp del]

definition formatBytes :: "number \<Rightarrow> string" where
  "formatBytes bytes =
     (case formatBytes_loop bytes 0 of
        (sz, unitIndex) \<Rightarrow> toFixed2 sz @ '' '' @ units ! unitIndex)"

definition formatSpeed :: "number \<Rightarrow> string" where
  "formatSpeed bytesPerSec = formatBytes bytesPerSec @ ''/s''"

subsection \<open>The instance in its event loop\<close>

text \<open>
  The interval callback is an \<open>async\<close> function: when the timer fires it issues the
  provider calls and suspends, and its body continues as a later task of the event loop
  once they have settled. Other calls on the instance can run in between. Until that
  continuation the callback reads nothing of the instance but the immutable
  configuration, so a pending callback is represented by a count. The runtime holds the
  table of armed interval timers (each with its delay), the number of callbacks that
  have fired and not yet continued, and the log of all callback invocations so far. The
  passing of time is not modelled: an armed timer may fire at any moment.
\<close>

record Runtime =
  monitor :: TrafficLens
  timers :: "(Timeout \<times> number option) list"
  nextTimeout :: nat
  inFlight :: nat
  published :: "publish list"

definition boot :: "TrafficLens \<Rightarrow> Runtime" where
  "boot this = \<lparr>monitor = this, timers = [], nextTimeout = 0, inFlight = 0, published = []\<rparr>"

definition setInterval :: "number option \<Rightarrow> Runtime \<Rightarrow> Timeout \<times> Runtime" where
  "setInterval delay rt =
     (Timeout (nextTimeout rt),
      rt\<lparr>timers := timers rt @ [(Timeout (nextTimeout rt), delay)],
         nextTimeout := nextTimeout rt + 1\<rparr>)"

definition clearInterval :: "Timeout \<Rightarrow> Runtime \<Rightarrow> Runtime" where
  "clearInterval h rt = rt\<lparr>timers := filter (\<lambda>t. fst t \<noteq> h) (timers rt)\<rparr>"

text \<open>\<open>start\<close> returns the error it throws, if any, and the runtime it leaves.\<close>

definition start :: "Runtime \<Rightarrow> error option \<times> Runtime" where
  "start rt =
     (case intervalId (monitor rt) of
        Some _ \<Rightarrow> (Some (Error ''Monitor is already running''), rt)
      | None \<Rightarrow>
          (case setInterval (updateInterval (config (monitor rt))) rt of
             (h, rt') \<Rightarrow> (None, rt'\<lparr>monitor := (monitor rt')\<lparr>intervalId := Some h\<rparr>\<rparr>)))"

definition stop :: "Runtime \<Rightarrow> Runtime" where
  "stop rt =
     (case intervalId (monitor rt) of
        None \<Rightarrow> rt
      | Some h \<Rightarrow>
          (let rt' = clearInterval h rt
           in rt'\<lparr>monitor := (monitor rt')\<lparr>intervalId := None\<rparr>\<rparr>))"

text \<open>
  The events of a run: the public calls, a timer firing (possible only while it is
  armed), and the provider calls of one pending callback settling, after which the body
  of the callback runs to its end.
\<close>

datatype event =
  Start
| Stop
| Subscribe MonitorCallback
| Unsubscribe MonitorCallback
| Fire Timeout
| Settle TickInput

fun step :: "event \<Rightarrow> Runtime \<Rightarrow> Runtime" where
  "step Start rt = snd (start rt)"
| "step Stop rt = stop rt"
| "step (Subscribe callback) rt = rt\<lparr>monitor := subscribe callback (monitor rt)\<rparr>"
| "step (Unsubscribe callback) rt = rt\<lparr>monitor := unsubscribe callback (monitor rt)\<rparr>"
| "step (Fire h) rt =
     (if h \<in> set (map fst (timers rt)) then rt\<lparr>inFlight := inFlight rt + 1\<rparr> else rt)"
| "step (Settle inp) rt =
     (if inFlight rt = 0 then rt
      else
        (case tick (monitor rt) inp of
           (this, pubs) \<Rightarrow>
             rt\<lparr>monitor := this, inFlight := inFlight rt - 1,
                published := published rt @ pubs\<rparr>))"

definition run :: "event list \<Rightarrow> Runtime \<Rightarrow> Runtime" where
  "run es rt = fold step es rt"

text \<open>A tick is successful when its interface snapshot is present.\<close>

fun successful :: "event \<Rightarrow> bool" where
  "successful (Settle inp) = (getCurrentStats (statsOutcome inp) (captureTime inp) \<noteq> None)"
| "successful _ = False"

text \<open>The timer table holds exactly the timer whose handle the instance keeps.\<close>

definition timers_agree :: "Runtime \<Rightarrow> bool" where
  "timers_agree rt =
     (map fst (timers rt) = (case intervalId (monitor rt) of None \<Rightarrow> [] | Some h \<Rightarrow> [h]))"

subsection \<open>Sample data\<close>

text \<open>The provider outputs of the unit tests, and an instance on the tests' port.\<close>

definition mockNetworkStats :: "NetworkStatsData list" where
  "mockNetworkStats =
     [\<lparr>iface = ''eth0'', operstate = ''up'', rx_bytes = 1000, tx_bytes = 2000,
       rx_sec = 100, tx_sec = 200\<rparr>]"

definition mockNetworkConnections :: "NetworkConnectionsData list" where
  "mockNetworkConnections =
     [\<lparr>localAddress = ''eth0'', localPort = ''1080''\<rparr>,
      \<lparr>localAddress = ''eth0'', localPort = ''1080''\<rparr>]"

definition mockTick :: "number \<Rightarrow> TickInput" where
  "mockTick now =
     \<lparr>statsOutcome = Resolved mockNetworkStats, captureTime = now,
      connectionsOutcome = Resolved mockNetworkConnections,
      proxyStatsOutcome = Resolved mockNetworkStats, tickTime = now\<rparr>"

text \<open>The same interface counters on a tick where no connection is on the proxy port.\<close>

definition idleTick :: "number \<Rightarrow> TickInput" where
  "idleTick now =
     \<lparr>statsOutcome = Resolved mockNetworkStats, captureTime = now,
      connectionsOutcome = Resolved [],
      proxyStatsOutcome = Resolved mockNetworkStats, tickTime = now\<rparr>"

text \<open>A tick whose interface statistics call rejects.\<close>

definition failedTick :: "number \<Rightarrow> TickInput" where
  "failedTick now =
     \<lparr>statsOutcome = Rejected, captureTime = now,
      connectionsOutcome = Resolved mockNetworkConnections,
      proxyStatsOutcome = Resolved mockNetworkStats, tickTime = now\<rparr>"

definition mockMonitor :: TrafficLens where
  "mockMonitor =
     \<lparr>lastStats = None, totalStats = initialStats 0, intervalId = None, callbacks = [],
      config = \<lparr>proxyPort = 1080, updateInterval = Some 5000\<rparr>\<rparr>"

text \<open>The snapshot that the tests expect from \<open>getCurrentStats\<close>.\<close>

definition mockSnapshot :: "number \<Rightarrow> NetworkSnapshot" where
  "mockSnapshot now =
     \<lparr>upload = 2000, download = 1000, uploadSpeed = 200, downloadSpeed = 100,
      snapshot_timestamp = now\<rparr>"

text \<open>The statistics that the tests expect the subscribers to receive.\<close>

definition fullStats :: "number \<Rightarrow> TrafficStats" where
  "fullStats now =
     \<lparr>proxied = \<lparr>upload = 2000, download = 1000, uploadSpeed = 200, downloadSpeed = 100,
                  activeConnections = 2\<rparr>,
      direct = \<lparr>upload = 0, download = 0, uploadSpeed = 0, downloadSpeed = 0\<rparr>,
      timestamp = now\<rparr>"

text \<open>
  The runtime once callback \<open>7\<close> has subscribed, the monitor has been started and the
  first tick (at time \<open>1\<close>, on the tests' data) has completed.
\<close>

definition seedRun :: "event list" where
  "seedRun = [Subscribe 7, Start, Fire (Timeout 0), Settle (mockTick 1)]"

definition seeded :: Runtime where
  "seeded =
     \<lparr>monitor =
        \<lparr>lastStats = Some (mockSnapshot 1), totalStats = initialStats 0,
         intervalId = Some (Timeout 0), callbacks = [7],
         config = \<lparr>proxyPort = 1080, updateInterval = Some 5000\<rparr>\<rparr>,
      timers = [(Timeout 0, Some 5000)], nextTimeout = 1, inFlight = 0, published = []\<rparr>"

text \<open>Two ticks on the tests' data, then a tick on which the proxy has no connection.\<close>

definition staleRun :: "event list" where
  "staleRun =
     seedRun @ [Fire (Timeout 0), Settle (mockTick 2), Fire (Timeout 0), Settle (idleTick 3)]"

text \<open>A tick fires, the monitor is stopped, and then the tick's provider calls settle.\<close>

definition lateRun :: "event list" where
  "lateRun = seedRun @ [Fire (Timeout 0), Stop, Settle (mockTick 2)]"

text \<open>The monitor is stopped after the seed tick and started again.\<close>

definition restartRun :: "event list" where
  "restartRun = seedRun @ [Stop, Start, Fire (Timeout 1), Settle (mockTick 2)]"

section \<open>Properties\<close>

subsection \<open>Evaluation of the formatting functions\<close>

lemma loop_KB: "formatBytes_loop 1024 0 = (1, 1)"
  by (simp add: formatBytes_loop.simps units_def)

lemma loop_MB: "formatBytes_loop 1048576 0 = (1, 2)"
  by (simp add: formatBytes_loop.simps units_def)

lemma loop_GB: "formatBytes_loop 1073741824 0 = (1, 3)"
  by (simp add: formatBytes_loop.simps units_def)

lemma toString_100: "toString 100 = ''100''"
  by (simp add: toString.simps digit_char_def)

lemma toFixed2_one: "toFixed2 1 = ''1.00''"
  by (simp add: toFixed2_def toString_100)

lemma formatBytes_KB: "formatBytes 1024 = ''1.00 KB''"
  by (simp add: formatBytes_def loop_KB toFixed2_one units_def)

lemma formatBytes_MB: "formatBytes 1048576 = ''1.00 MB''"
  by (simp add: formatBytes_def loop_MB toFixed2_one units_def)

lemma formatBytes_GB: "formatBytes 1073741824 = ''1.00 GB''"
  by (simp add: formatBytes_def loop_GB toFixed2_one units_def)

text \<open>
  Claim C9: \<open>formatBytes\<close> gives \<open>1.00 KB\<close>, \<open>1.00 MB\<close> and \<open>1.00 GB\<close> at \<open>1024\<close>,
  \<open>1048576\<close> and \<open>1073741824\<close>, and for every number \<open>formatSpeed\<close> is \<open>formatBytes\<close>
  with \<open>/s\<close> appended.
\<close>

theorem formatBytes_contract:
  "formatBytes 1024 = ''1.00 KB'' \<and> formatBytes 1048576 = ''1.00 MB''
   \<and> formatBytes 1073741824 = ''1.00 GB''
   \<and> (\<forall>x. formatSpeed x = formatBytes x @ ''/s'')"
  using formatBytes_KB formatBytes_MB formatBytes_GB by (simp add: formatSpeed_def)

subsection \<open>Construction\<close>

lemma constructor_rejects:
  "ui \<noteq> 0 \<Longrightarrow> ui < 3000 \<Longrightarrow>
   constructor now \<lparr>proxyPort = p, updateInterval = Some ui\<rparr>
     = Inl (Error ''Update interval must be greater than 3 seconds'')"
  by (simp add: constructor_def truthy_def)

lemma constructor_accepts:
  "3000 \<le> ui \<Longrightarrow>
   constructor now \<lparr>proxyPort = p, updateInterval = Some ui\<rparr>
     = Inr \<lparr>lastStats = None, totalStats = initialStats now, intervalId = None,
            callbacks = [], config = \<lparr>proxyPort = p, updateInterval = Some ui\<rparr>\<rparr>"
  by (simp add: constructor_def truthy_def)

lemma constructor_default:
  "constructor now \<lparr>proxyPort = p, updateInterval = None\<rparr>
     = Inr \<lparr>lastStats = None, totalStats = initialStats now, intervalId = None,
            callbacks = [], config = \<lparr>proxyPort = p, updateInterval = Some 5000\<rparr>\<rparr>"
  by (simp add: constructor_def)

text \<open>
  Claim C3: construction fails for every \<open>updateInterval\<close> below \<open>3000\<close> and succeeds at
  \<open>3000\<close>. The guard of the constructor tests the truthiness of the interval first, so the
  interval \<open>0\<close> passes it: construction succeeds, and since the caller's configuration is
  spread over the default, the stored interval is \<open>0\<close>. For every other interval below
  \<open>3000\<close> the constructor throws (\<open>constructor_rejects\<close>), and from \<open>3000\<close> on it
  succeeds (\<open>constructor_accepts\<close>).
\<close>

theorem constructor_accepts_zero:
  "constructor 0 \<lparr>proxyPort = 1080, updateInterval = Some 0\<rparr>
     = Inr (mockMonitor\<lparr>config := \<lparr>proxyPort = 1080, updateInterval = Some 0\<rparr>\<rparr>)"
  by (simp add: constructor_def truthy_def mockMonitor_def)

subsection \<open>The sampler and one tick\<close>

lemma or_else_zero: "or_else x 0 = x"
  by (simp add: or_else_def truthy_def)

lemma toString_1080: "toString 1080 = ''1080''"
  by (simp add: toString.simps digit_char_def)

lemma getCurrentStats_mock:
  "getCurrentStats (Resolved mockNetworkStats) now
     = Some \<lparr>upload = 2000, download = 1000, uploadSpeed = 200, downloadSpeed = 100,
             snapshot_timestamp = now\<rparr>"
  by (simp add: getCurrentStats_def mockNetworkStats_def or_else_zero)

lemma checkProxyConnections_mock:
  "checkProxyConnections (config mockMonitor) (Resolved mockNetworkConnections)
       (Resolved mockNetworkStats)
     = \<lparr>result_activeConnections = 2,
        result_stats = Some \<lparr>upload = 2000, download = 1000, uploadSpeed = 200,
                             downloadSpeed = 100\<rparr>\<rparr>"
  by (simp add: checkProxyConnections_def mockMonitor_def mockNetworkConnections_def
      mockNetworkStats_def toString_1080)

lemma checkProxyConnections_idle:
  "checkProxyConnections cfg (Resolved []) (Resolved mockNetworkStats)
     = \<lparr>result_activeConnections = 0, result_stats = None\<rparr>"
  by (simp add: checkProxyConnections_def mockNetworkStats_def)

lemma tick_absent:
  "getCurrentStats (statsOutcome inp) (captureTime inp) = None \<Longrightarrow> tick this inp = (this, [])"
  by (simp add: tick_def)

lemma tick_seed:
  "getCurrentStats (statsOutcome inp) (captureTime inp) = Some cur \<Longrightarrow> lastStats this = None
   \<Longrightarrow> tick this inp = (this\<lparr>lastStats := Some cur\<rparr>, [])"
  by (simp add: tick_def)

lemma tick_publishing:
  "getCurrentStats (statsOutcome inp) (captureTime inp) = Some cur \<Longrightarrow> lastStats this = Some prev
   \<Longrightarrow> tick this inp =
       (this\<lparr>totalStats :=
                updateTotals (totalStats this) cur
                  (checkProxyConnections (config this) (connectionsOutcome inp)
                     (proxyStatsOutcome inp)) (tickTime inp),
              lastStats := Some cur\<rparr>,
        map (\<lambda>callback.
               (callback,
                updateTotals (totalStats this) cur
                  (checkProxyConnections (config this) (connectionsOutcome inp)
                     (proxyStatsOutcome inp)) (tickTime inp)))
          (callbacks this))"
  by (simp add: tick_def Let_def)

lemma tick_frame:
  "intervalId (fst (tick this inp)) = intervalId this
   \<and> callbacks (fst (tick this inp)) = callbacks this
   \<and> config (fst (tick this inp)) = config this"
  by (simp add: tick_def Let_def split: option.splits)

lemma updateTotals_matched:
  "result_stats pr = Some st \<Longrightarrow>
   updateTotals stats cur pr now =
     \<lparr>proxied = \<lparr>upload = upload st, download = download st, uploadSpeed = uploadSpeed st,
                  downloadSpeed = downloadSpeed st,
                  activeConnections = result_activeConnections pr\<rparr>,
      direct = \<lparr>upload = upload cur - upload st, download = download cur - download st,
                 uploadSpeed = uploadSpeed cur - uploadSpeed st,
                 downloadSpeed = downloadSpeed cur - downloadSpeed st\<rparr>,
      timestamp = now\<rparr>"
  by (simp add: updateTotals_def stats_or_zero_def or_else_zero)

lemma updateTotals_unmatched:
  "result_stats pr = None \<Longrightarrow>
   updateTotals stats cur pr now =
     \<lparr>proxied = (proxied stats)\<lparr>activeConnections := result_activeConnections pr\<rparr>,
      direct = \<lparr>upload = upload cur, download = download cur,
                 uploadSpeed = uploadSpeed cur, downloadSpeed = downloadSpeed cur\<rparr>,
      timestamp = now\<rparr>"
  by (simp add: updateTotals_def stats_or_zero_def)



lemma run_Nil: "run [] rt = rt"
  by (simp add: run_def)

lemma run_Cons: "run (e # es) rt = run es (step e rt)"
  by (simp add: run_def)

lemma run_append: "run (es @ es') rt = run es' (run es rt)"
  by (simp add: run_def)

lemma tick_mock_seed:
  "lastStats this = None \<Longrightarrow>
   tick this (mockTick now) = (this\<lparr>lastStats := Some (mockSnapshot now)\<rparr>, [])"
  by (rule tick_seed) (simp_all add: mockTick_def getCurrentStats_mock mockSnapshot_def)

lemma tick_mock_publish:
  assumes "lastStats this \<noteq> None" and "config this = config mockMonitor"
  shows "tick this (mockTick now) =
           (this\<lparr>totalStats := fullStats now, lastStats := Some (mockSnapshot now)\<rparr>,
            map (\<lambda>callback. (callback, fullStats now)) (callbacks this))"
proof -
  from assms(1) obtain prev where prev: "lastStats this = Some prev"
    by auto
  have cur: "getCurrentStats (statsOutcome (mockTick now)) (captureTime (mockTick now))
               = Some (mockSnapshot now)"
    by (simp add: mockTick_def getCurrentStats_mock mockSnapshot_def)
  have pr: "checkProxyConnections (config this) (connectionsOutcome (mockTick now))
              (proxyStatsOutcome (mockTick now))
            = \<lparr>result_activeConnections = 2,
               result_stats = Some \<lparr>upload = 2000, download = 1000, uploadSpeed = 200,
                                    downloadSpeed = 100\<rparr>\<rparr>"
    by (simp add: assms(2) mockTick_def checkProxyConnections_mock)
  have upd: "updateTotals (totalStats this) (mockSnapshot now)
               \<lparr>result_activeConnections = 2,
                result_stats = Some \<lparr>upload = 2000, download = 1000, uploadSpeed = 200,
                                     downloadSpeed = 100\<rparr>\<rparr> (tickTime (mockTick now))
             = fullStats now"
    by (simp add: updateTotals_matched mockSnapshot_def fullStats_def mockTick_def)
  show ?thesis
    by (simp add: tick_publishing [OF cur prev] pr upd)
qed

lemma tick_idle_publish:
  assumes "lastStats this \<noteq> None"
  shows "tick this (idleTick now) =
           (this\<lparr>totalStats :=
                    \<lparr>proxied = (proxied (totalStats this))\<lparr>activeConnections := 0\<rparr>,
                     direct = \<lparr>upload = 2000, download = 1000, uploadSpeed = 200,
                                downloadSpeed = 100\<rparr>,
                     timestamp = now\<rparr>,
                  lastStats := Some (mockSnapshot now)\<rparr>,
            map (\<lambda>callback.
                   (callback,
                    \<lparr>proxied = (proxied (totalStats this))\<lparr>activeConnections := 0\<rparr>,
                     direct = \<lparr>upload = 2000, download = 1000, uploadSpeed = 200,
                                downloadSpeed = 100\<rparr>,
                     timestamp = now\<rparr>))
              (callbacks this))"
proof -
  from assms obtain prev where prev: "lastStats this = Some prev"
    by auto
  have cur: "getCurrentStats (statsOutcome (idleTick now)) (captureTime (idleTick now))
               = Some (mockSnapshot now)"
    by (simp add: idleTick_def getCurrentStats_mock mockSnapshot_def)
  have pr: "checkProxyConnections (config this) (connectionsOutcome (idleTick now))
              (proxyStatsOutcome (idleTick now))
            = \<lparr>result_activeConnections = 0, result_stats = None\<rparr>"
    by (simp add: idleTick_def checkProxyConnections_idle)
  have upd: "updateTotals (totalStats this) (mockSnapshot now)
               \<lparr>result_activeConnections = 0, result_stats = None\<rparr> (tickTime (idleTick now))
             = \<lparr>proxied = (proxied (totalStats this))\<lparr>activeConnections := 0\<rparr>,
                direct = \<lparr>upload = 2000, download = 1000, uploadSpeed = 200,
                           downloadSpeed = 100\<rparr>,
                timestamp = now\<rparr>"
    by (simp add: updateTotals_unmatched mockSnapshot_def idleTick_def)
  show ?thesis
    by (simp add: tick_publishing [OF cur prev] pr upd)
qed

lemma config_mockMonitor:
  "config mockMonitor = \<lparr>proxyPort = 1080, updateInterval = Some 5000\<rparr>"
  by (simp add: mockMonitor_def)

lemma run_seedRun: "run seedRun (boot mockMonitor) = seeded"
  by (simp add: seedRun_def run_Cons run_Nil boot_def start_def setInterval_def subscribe_def
      mockMonitor_def seeded_def tick_mock_seed)

lemma published_staleRun:
  "published (run staleRun (boot mockMonitor)) =
     [(7, fullStats 2),
      (7, \<lparr>proxied = \<lparr>upload = 2000, download = 1000, uploadSpeed = 200,
                       downloadSpeed = 100, activeConnections = 0\<rparr>,
           direct = \<lparr>upload = 2000, download = 1000, uploadSpeed = 200,
                      downloadSpeed = 100\<rparr>,
           timestamp = 3\<rparr>)]"
  by (simp add: staleRun_def run_append run_seedRun run_Cons run_Nil seeded_def
      tick_mock_publish tick_idle_publish config_mockMonitor fullStats_def)

lemma published_lateRun:
  "published (run lateRun (boot mockMonitor)) = [(7, fullStats 2)]"
  by (simp add: lateRun_def run_append run_seedRun run_Cons run_Nil seeded_def
      stop_def clearInterval_def tick_mock_publish config_mockMonitor)

lemma published_restartRun:
  "published (run restartRun (boot mockMonitor)) = [(7, fullStats 2)]"
  by (simp add: restartRun_def run_append run_seedRun run_Cons run_Nil seeded_def
      stop_def clearInterval_def start_def setInterval_def tick_mock_publish config_mockMonitor)

subsection \<open>Stale proxy metrics\<close>

text \<open>
  Claim C1: on a publishing tick where the proxy view matched no interface, the published
  \<open>proxied\<close> has zero volume and speed and the tick's connection count. In \<open>staleRun\<close>
  the third tick finds no connection on the proxy port, so its proxy view has no
  statistics and the count \<open>0\<close>; the statistics published on that tick carry the count
  \<open>0\<close> together with the volume and speed of the tick before.
\<close>

theorem unmatched_tick_publishes_stale_proxied:
  "checkProxyConnections (config mockMonitor) (connectionsOutcome (idleTick 3))
       (proxyStatsOutcome (idleTick 3))
     = \<lparr>result_activeConnections = 0, result_stats = None\<rparr>
   \<and> map (\<lambda>p. proxied (snd p)) (published (run staleRun (boot mockMonitor)))
     = [\<lparr>upload = 2000, download = 1000, uploadSpeed = 200, downloadSpeed = 100,
         activeConnections = 2\<rparr>,
        \<lparr>upload = 2000, download = 1000, uploadSpeed = 200, downloadSpeed = 100,
         activeConnections = 0\<rparr>]"
  by (simp add: published_staleRun fullStats_def idleTick_def checkProxyConnections_idle)

text \<open>
  Claim C2: in every published \<open>TrafficStats\<close>, each field of \<open>direct\<close> is the field of
  the current interface snapshot minus the field of \<open>proxied\<close>. On the third tick of
  \<open>staleRun\<close> the snapshot is \<open>mockSnapshot 3\<close>; the published \<open>direct\<close> equals the
  snapshot's fields, while the snapshot minus the published \<open>proxied\<close> is zero in each
  field.
\<close>

theorem direct_differs_from_snapshot_minus_proxied:
  "getCurrentStats (statsOutcome (idleTick 3)) (captureTime (idleTick 3))
     = Some (mockSnapshot 3)
   \<and> direct (snd (last (published (run staleRun (boot mockMonitor)))))
     = \<lparr>upload = 2000, download = 1000, uploadSpeed = 200, downloadSpeed = 100\<rparr>
   \<and> upload (mockSnapshot 3)
       - upload (proxied (snd (last (published (run staleRun (boot mockMonitor)))))) = 0
   \<and> download (mockSnapshot 3)
       - download (proxied (snd (last (published (run staleRun (boot mockMonitor)))))) = 0
   \<and> uploadSpeed (mockSnapshot 3)
       - uploadSpeed (proxied (snd (last (published (run staleRun (boot mockMonitor)))))) = 0
   \<and> downloadSpeed (mockSnapshot 3)
       - downloadSpeed (proxied (snd (last (published (run staleRun (boot mockMonitor)))))) = 0"
  by (simp add: published_staleRun idleTick_def getCurrentStats_mock mockSnapshot_def)

subsection \<open>Start and stop\<close>

lemma start_running:
  "intervalId (monitor rt) = Some h \<Longrightarrow> start rt = (Some (Error ''Monitor is already running''), rt)"
  by (simp add: start_def)

lemma start_stopped:
  "intervalId (monitor rt) = None \<Longrightarrow>
   start rt =
     (None,
      rt\<lparr>timers := timers rt @ [(Timeout (nextTimeout rt), updateInterval (config (monitor rt)))],
         nextTimeout := nextTimeout rt + 1,
         monitor := (monitor rt)\<lparr>intervalId := Some (Timeout (nextTimeout rt))\<rparr>\<rparr>)"
  by (simp add: start_def setInterval_def)

lemma start_frame:
  "lastStats (monitor (snd (start rt))) = lastStats (monitor rt)
   \<and> totalStats (monitor (snd (start rt))) = totalStats (monitor rt)
   \<and> callbacks (monitor (snd (start rt))) = callbacks (monitor rt)
   \<and> config (monitor (snd (start rt))) = config (monitor rt)
   \<and> inFlight (snd (start rt)) = inFlight rt
   \<and> published (snd (start rt)) = published rt"
  by (cases "intervalId (monitor rt)") (simp_all add: start_running start_stopped)

lemma stop_frame:
  "lastStats (monitor (stop rt)) = lastStats (monitor rt)
   \<and> totalStats (monitor (stop rt)) = totalStats (monitor rt)
   \<and> callbacks (monitor (stop rt)) = callbacks (monitor rt)
   \<and> config (monitor (stop rt)) = config (monitor rt)
   \<and> inFlight (stop rt) = inFlight rt
   \<and> published (stop rt) = published rt
   \<and> nextTimeout (stop rt) = nextTimeout rt"
  by (cases "intervalId (monitor rt)") (simp_all add: stop_def clearInterval_def Let_def)

lemma stop_intervalId: "intervalId (monitor (stop rt)) = None"
  by (cases "intervalId (monitor rt)") (simp_all add: stop_def clearInterval_def Let_def)

text \<open>
  Claim C8: \<open>start\<close> on an instance that is already running throws, and leaves the
  timer of the first call and everything else as it was. The first conjunct is the call
  on any running instance; the second is the second of two calls in a row on a stopped
  one. The runtime returned with the error is the whole runtime before the call, timer
  table included.
\<close>

theorem second_start_rejected:
  "(intervalId (monitor rt) \<noteq> None \<longrightarrow>
      start rt = (Some (Error ''Monitor is already running''), rt))
   \<and> (intervalId (monitor rt) = None \<longrightarrow>
        fst (start rt) = None
        \<and> start (snd (start rt)) = (Some (Error ''Monitor is already running''), snd (start rt)))"
proof (cases "intervalId (monitor rt)")
  case None
  then show ?thesis
    by (simp add: start_stopped start_running)
next
  case (Some h)
  then show ?thesis
    by (simp add: start_running)
qed

text \<open>Claim C8 at the seeded sample runtime and at a freshly booted instance.\<close>

theorem second_start_rejected_witness:
  "intervalId (monitor seeded) \<noteq> None
   \<and> start seeded = (Some (Error ''Monitor is already running''), seeded)
   \<and> intervalId (monitor (boot mockMonitor)) = None
   \<and> fst (start (boot mockMonitor)) = None
   \<and> start (snd (start (boot mockMonitor)))
       = (Some (Error ''Monitor is already running''), snd (start (boot mockMonitor)))"
  using second_start_rejected [of seeded] second_start_rejected [of "boot mockMonitor"]
  by (simp add: seeded_def boot_def mockMonitor_def)

text \<open>
  Claim C10: \<open>stop\<close> changes only the timer handle. The last snapshot, the live
  statistics, the callback list and the configuration are as before, and after \<open>stop\<close>
  followed by \<open>start\<close> the instance still holds the snapshot from before the stop.
\<close>

theorem stop_changes_only_timer:
  "lastStats (monitor (stop rt)) = lastStats (monitor rt)
   \<and> totalStats (monitor (stop rt)) = totalStats (monitor rt)
   \<and> callbacks (monitor (stop rt)) = callbacks (monitor rt)
   \<and> config (monitor (stop rt)) = config (monitor rt)
   \<and> lastStats (monitor (snd (start (stop rt)))) = lastStats (monitor rt)
   \<and> totalStats (monitor (snd (start (stop rt)))) = totalStats (monitor rt)"
  by (simp add: stop_frame start_frame)

subsection \<open>Subscription\<close>

text \<open>
  Claim C7 (as stated): from every state of the callback list, \<open>subscribe\<close> followed by
  the returned disposer leaves the subscriber count as it was. With callback \<open>7\<close>
  registered once already, subscribing it again and disposing leaves no subscriber: the
  disposer filters by identity, so it takes the earlier registration with it.
\<close>

theorem resubscribed_callback_counterexample:
  "callbacks (subscribe 7 mockMonitor) = [7]
   \<and> callbacks (unsubscribe 7 (subscribe 7 (subscribe 7 mockMonitor))) = []
   \<and> length (callbacks (unsubscribe 7 (subscribe 7 (subscribe 7 mockMonitor))))
       \<noteq> length (callbacks (subscribe 7 mockMonitor))"
  by (simp add: subscribe_def unsubscribe_def mockMonitor_def)

text \<open>
  Claim C7 (amended): for a callback that is not registered yet, \<open>subscribe\<close> followed by
  its disposer restores the instance, so the count is unchanged. In general the disposer
  removes every registration of that callback and nothing else, the count drops by the
  number of earlier registrations of it, and invoking the disposer again changes nothing.
\<close>

theorem subscribe_then_dispose:
  "(callback \<notin> set (callbacks this) \<longrightarrow> unsubscribe callback (subscribe callback this) = this)
   \<and> callbacks (unsubscribe callback (subscribe callback this))
       = filter (\<lambda>cb. cb \<noteq> callback) (callbacks this)
   \<and> length (callbacks (unsubscribe callback (subscribe callback this)))
       = length (callbacks this) - count_list (callbacks this) callback
   \<and> unsubscribe callback (unsubscribe callback this) = unsubscribe callback this"
proof -
  have len: "length (filter (\<lambda>cb. cb \<noteq> callback) xs) = length xs - count_list xs callback" for xs
    by (induction xs) (auto simp: Suc_diff_le count_le_length)
  have keep: "callback \<notin> set xs \<Longrightarrow> filter (\<lambda>cb. cb \<noteq> callback) xs = xs" for xs
    by (induction xs) auto
  show ?thesis
    by (simp add: subscribe_def unsubscribe_def len keep)
qed

text \<open>Claim C7 (amended) with callback \<open>8\<close> on an instance that holds callback \<open>7\<close>.\<close>

theorem subscribe_then_dispose_witness:
  "8 \<notin> set (callbacks (subscribe 7 mockMonitor))
   \<and> unsubscribe 8 (subscribe 8 (subscribe 7 mockMonitor)) = subscribe 7 mockMonitor
   \<and> length (callbacks (unsubscribe 8 (subscribe 8 (subscribe 7 mockMonitor)))) = 1"
  using subscribe_then_dispose [of 8 "subscribe 7 mockMonitor"]
  by (simp add: subscribe_def mockMonitor_def)

subsection \<open>Ticks without a snapshot\<close>

text \<open>
  Claim C6: on a tick where the interface statistics call rejects, or no interface is up
  with a positive received-byte counter, the capture gives an absent result (a value, not
  an exception), the tick invokes no callback, and the instance, hence its stored
  snapshot and its live statistics, is left as it was.
\<close>

theorem absent_snapshot_skips_tick:
  assumes "statsOutcome inp = Rejected
           \<or> (\<exists>stats. statsOutcome inp = Resolved stats
                \<and> find (\<lambda>stat. operstate stat = ''up'' \<and> rx_bytes stat > 0) stats = None)"
  shows "getCurrentStats (statsOutcome inp) (captureTime inp) = None
         \<and> tick this inp = (this, [])
         \<and> monitor (step (Settle inp) rt) = monitor rt
         \<and> published (step (Settle inp) rt) = published rt"
proof -
  from assms have absent: "getCurrentStats (statsOutcome inp) (captureTime inp) = None"
    by (auto simp: getCurrentStats_def)
  then show ?thesis
    by (simp add: tick_absent)
qed

text \<open>Claim C6 on a tick with a rejected statistics call, in flight on the seeded runtime.\<close>

theorem absent_snapshot_skips_tick_witness:
  "statsOutcome (failedTick 2) = Rejected
   \<and> getCurrentStats (statsOutcome (failedTick 2)) (captureTime (failedTick 2)) = None
   \<and> tick (monitor seeded) (failedTick 2) = (monitor seeded, [])
   \<and> monitor (step (Settle (failedTick 2)) (step (Fire (Timeout 0)) seeded)) = monitor seeded
   \<and> published (step (Settle (failedTick 2)) (step (Fire (Timeout 0)) seeded)) = []"
  using absent_snapshot_skips_tick
    [of "failedTick 2" "monitor seeded" "step (Fire (Timeout 0)) seeded"]
  by (simp add: failedTick_def seeded_def)

subsection \<open>After stop\<close>

lemma timers_agree_boot: "intervalId this = None \<Longrightarrow> timers_agree (boot this)"
  by (simp add: timers_agree_def boot_def)

lemma clear_only_timer: "map fst ts = [h] \<Longrightarrow> filter (\<lambda>t. fst t \<noteq> h) ts = []"
  by (cases ts) auto

lemma timers_agree_step:
  assumes "timers_agree rt"
  shows "timers_agree (step e rt)"
proof (cases e)
  case Start
  with assms show ?thesis
    by (cases "intervalId (monitor rt)")
      (simp_all add: timers_agree_def start_running start_stopped)
next
  case Stop
  with assms show ?thesis
    by (cases "intervalId (monitor rt)")
      (simp_all add: timers_agree_def stop_def clearInterval_def Let_def clear_only_timer)
next
  case (Settle inp)
  with assms tick_frame [of "monitor rt" inp] show ?thesis
    by (cases "tick (monitor rt) inp") (simp add: timers_agree_def)
qed (use assms in \<open>simp_all add: timers_agree_def subscribe_def unsubscribe_def\<close>)

lemma timers_agree_run: "timers_agree rt \<Longrightarrow> timers_agree (run es rt)"
  by (induction es arbitrary: rt) (simp_all add: run_Nil run_Cons timers_agree_step)

lemma stop_disarms:
  "timers_agree rt \<Longrightarrow> intervalId (monitor (stop rt)) = None \<and> timers (stop rt) = []"
  by (cases "intervalId (monitor rt)")
    (auto simp: timers_agree_def stop_def clearInterval_def Let_def filter_empty_conv)

lemma step_disarmed:
  assumes "e \<noteq> Start" and "intervalId (monitor rt) = None" and "timers rt = []"
  shows "intervalId (monitor (step e rt)) = None \<and> timers (step e rt) = []
         \<and> inFlight (step e rt) \<le> inFlight rt
         \<and> (inFlight rt = 0 \<longrightarrow> published (step e rt) = published rt)"
proof (cases e)
  case (Settle inp)
  then show ?thesis
    using assms tick_frame [of "monitor rt" inp]
    by (cases "tick (monitor rt) inp") simp
qed (use assms in \<open>simp_all add: stop_def subscribe_def unsubscribe_def\<close>)

lemma run_disarmed:
  assumes "Start \<notin> set es" and "intervalId (monitor rt) = None" and "timers rt = []"
  shows "inFlight (run es rt) \<le> inFlight rt
         \<and> (inFlight rt = 0 \<longrightarrow> published (run es rt) = published rt)"
  using assms
proof (induction es arbitrary: rt)
  case Nil
  then show ?case by (simp add: run_Nil)
next
  case (Cons e es)
  from Cons.prems have e: "e \<noteq> Start" and es: "Start \<notin> set es"
    by auto
  note st = step_disarmed [OF e Cons.prems(2) Cons.prems(3)]
  from st have ih: "inFlight (run es (step e rt)) \<le> inFlight (step e rt)
         \<and> (inFlight (step e rt) = 0 \<longrightarrow> published (run es (step e rt)) = published (step e rt))"
    by (intro Cons.IH [OF es]) simp_all
  from st ih show ?case
    by (auto simp: run_Cons)
qed

text \<open>
  Claim C4 (as stated): after \<open>stop\<close> no publish is observable, also from a tick that
  was in flight at the moment of \<open>stop\<close>. In \<open>lateRun\<close> a tick fires, \<open>stop\<close> disarms
  the timer and clears the handle while nothing has been published, and the tick then
  continues and invokes the subscriber: the continuation does not look at the handle.
\<close>

theorem late_tick_publishes_after_stop:
  "intervalId (monitor (run (seedRun @ [Fire (Timeout 0), Stop]) (boot mockMonitor))) = None
   \<and> timers (run (seedRun @ [Fire (Timeout 0), Stop]) (boot mockMonitor)) = []
   \<and> published (run (seedRun @ [Fire (Timeout 0), Stop]) (boot mockMonitor)) = []
   \<and> published (run lateRun (boot mockMonitor)) = [(7, fullStats 2)]"
  by (simp add: published_lateRun run_append run_seedRun run_Cons run_Nil seeded_def
      stop_def clearInterval_def)

text \<open>
  Claim C4 (amended): after \<open>stop\<close>, and until \<open>start\<close> is called again, no new tick
  begins: the number of ticks in flight never exceeds what it was at the moment of
  \<open>stop\<close>. If no tick was in flight at that moment, no further publish is observable,
  whatever timer firings, settlements and subscriptions follow.
\<close>

theorem no_new_tick_after_stop:
  assumes "intervalId this = None" and "Start \<notin> set es"
  shows "inFlight (run es (stop (run es0 (boot this)))) \<le> inFlight (run es0 (boot this))
         \<and> (inFlight (run es0 (boot this)) = 0 \<longrightarrow>
              published (run es (stop (run es0 (boot this)))) = published (run es0 (boot this)))"
proof -
  have "timers_agree (run es0 (boot this))"
    by (simp add: timers_agree_run timers_agree_boot assms(1))
  then have "intervalId (monitor (stop (run es0 (boot this)))) = None"
    and "timers (stop (run es0 (boot this))) = []"
    by (simp_all add: stop_disarms)
  from run_disarmed [OF assms(2) this] show ?thesis
    by (simp add: stop_frame)
qed

text \<open>Claim C4 (amended) for a stop right after the seed tick.\<close>

theorem no_new_tick_after_stop_witness:
  "intervalId mockMonitor = None
   \<and> Start \<notin> set [Fire (Timeout 0), Settle (mockTick 2), Subscribe 8]
   \<and> inFlight (run seedRun (boot mockMonitor)) = 0
   \<and> published (run [Fire (Timeout 0), Settle (mockTick 2), Subscribe 8]
         (stop (run seedRun (boot mockMonitor)))) = []"
proof -
  have a: "intervalId mockMonitor = None"
    by (simp add: mockMonitor_def)
  have b: "Start \<notin> set [Fire (Timeout 0), Settle (mockTick 2), Subscribe 8]"
    by simp
  have c: "inFlight (run seedRun (boot mockMonitor)) = 0"
    and d: "published (run seedRun (boot mockMonitor)) = []"
    by (simp_all add: run_seedRun seeded_def)
  from no_new_tick_after_stop [OF a b, of seedRun] a b c d show ?thesis
    by simp
qed

subsection \<open>The seed tick\<close>

lemma step_unsuccessful:
  assumes "\<not> successful e"
  shows "lastStats (monitor (step e rt)) = lastStats (monitor rt)
         \<and> totalStats (monitor (step e rt)) = totalStats (monitor rt)
         \<and> published (step e rt) = published rt"
proof (cases e)
  case Start
  then show ?thesis by (simp add: start_frame)
next
  case Stop
  then show ?thesis by (simp add: stop_frame)
next
  case (Settle inp)
  with assms show ?thesis by (simp add: tick_absent)
qed (simp_all add: subscribe_def unsubscribe_def)

lemma run_unsuccessful:
  assumes "\<forall>e\<in>set es. \<not> successful e"
  shows "lastStats (monitor (run es rt)) = lastStats (monitor rt)
         \<and> totalStats (monitor (run es rt)) = totalStats (monitor rt)
         \<and> published (run es rt) = published rt"
  using assms
  by (induction es arbitrary: rt) (simp_all add: run_Nil run_Cons step_unsuccessful)

text \<open>
  Claim C5 (as stated): after every invocation of \<open>start\<close> the first successful tick
  publishes nothing. In \<open>restartRun\<close> the monitor is stopped after its seed tick and
  started again; the snapshot is still held, and the first tick after the second
  \<open>start\<close> publishes.
\<close>

theorem first_tick_after_restart_publishes:
  "published (run (seedRun @ [Stop, Start]) (boot mockMonitor)) = []
   \<and> lastStats (monitor (run (seedRun @ [Stop, Start]) (boot mockMonitor)))
       = Some (mockSnapshot 1)
   \<and> published (run restartRun (boot mockMonitor)) = [(7, fullStats 2)]"
  by (simp add: published_restartRun run_append run_seedRun run_Cons run_Nil seeded_def
      stop_def clearInterval_def start_def setInterval_def)

text \<open>
  Claim C5 (amended): the first successful tick of an instance that holds no snapshot
  (the first one since construction, whatever calls and failed ticks came before it)
  invokes no callback and leaves the live statistics untouched; nothing has been
  published before it, and it only stores its interface snapshot.
\<close>

theorem seed_tick_silent:
  assumes "lastStats this = None"
    and "\<forall>e\<in>set es. \<not> successful e"
    and "getCurrentStats (statsOutcome inp) (captureTime inp) = Some cur"
  shows "published (run es (boot this)) = []
         \<and> totalStats (monitor (run es (boot this))) = totalStats this
         \<and> tick (monitor (run es (boot this))) inp
             = ((monitor (run es (boot this)))\<lparr>lastStats := Some cur\<rparr>, [])"
proof -
  from run_unsuccessful [OF assms(2), of "boot this"]
  have "lastStats (monitor (run es (boot this))) = None"
    and "totalStats (monitor (run es (boot this))) = totalStats this"
    and "published (run es (boot this)) = []"
    by (simp_all add: boot_def assms(1))
  then show ?thesis
    by (simp add: tick_seed [OF assms(3)])
qed

text \<open>Claim C5 (amended) for a successful tick that follows a failed one.\<close>

theorem seed_tick_silent_witness:
  "lastStats mockMonitor = None
   \<and> list_all (\<lambda>e. \<not> successful e)
         [Subscribe 7, Start, Fire (Timeout 0), Settle (failedTick 1), Fire (Timeout 0)]
   \<and> getCurrentStats (statsOutcome (mockTick 2)) (captureTime (mockTick 2))
       = Some (mockSnapshot 2)
   \<and> tick (monitor (run [Subscribe 7, Start, Fire (Timeout 0), Settle (failedTick 1),
                          Fire (Timeout 0)] (boot mockMonitor))) (mockTick 2)
       = ((monitor (run [Subscribe 7, Start, Fire (Timeout 0), Settle (failedTick 1),
                          Fire (Timeout 0)] (boot mockMonitor)))
            \<lparr>lastStats := Some (mockSnapshot 2)\<rparr>, [])"
proof -
  have a: "lastStats mockMonitor = None"
    by (simp add: mockMonitor_def)
  have b: "\<forall>e\<in>set [Subscribe 7, Start, Fire (Timeout 0), Settle (failedTick 1),
                     Fire (Timeout 0)]. \<not> successful e"
    by (simp add: failedTick_def getCurrentStats_def)
  have c: "getCurrentStats (statsOutcome (mockTick 2)) (captureTime (mockTick 2))
             = Some (mockSnapshot 2)"
    by (simp add: mockTick_def getCurrentStats_mock mockSnapshot_def)
  from b have b': "list_all (\<lambda>e. \<not> successful e)
      [Subscribe 7, Start, Fire (Timeout 0), Settle (failedTick 1), Fire (Timeout 0)]"
    by (simp only: list_all_iff)
  from seed_tick_silent [OF a b c] a b' c show ?thesis
    by blast
qed

end
